theory Spec2Isabelle
  imports Complex_Main
begin

section \<open>Numbers, points and geographic coordinates\<close>

text \<open>
  The program is JavaScript; its numbers are modelled as mathematical reals, so
  \<open>Math.cos\<close>, \<open>Math.sin\<close>, \<open>Math.exp\<close>, \<open>Math.sqrt\<close> and \<open>Math.PI\<close> are the real
  functions \<open>cos\<close>, \<open>sin\<close>, \<open>exp\<close>, \<open>sqrt\<close> and the constant \<open>pi\<close>. Rounding, infinities
  and NaN are outside the model.
\<close>

text \<open>A canvas offset \<open>{ x: ..., y: ... }\<close>.\<close>

record point =
  px :: real
  py :: real

text \<open>A Leaflet geographic coordinate \<open>{ lat: ..., lng: ... }\<close>.\<close>

record latlng =
  lat :: real
  lng :: real


section \<open>Recursive boundary sampling (script.js, lines 342 to 371)\<close>

text \<open>
  \<open>computeBoundaryPointsRecursively\<close> calls itself once per sampled angle, and JavaScript
  engines do not reuse the frame of such a call. The first argument of the model is the
  number of frames the call stack still has room for: a call that finds no room does not
  return a value (the engine raises \<open>RangeError\<close>), which is \<open>None\<close>. The array \<open>points\<close> is
  only ever extended at its end by \<open>push\<close>, which is \<open>points @ [newPoint]\<close>.
\<close>

fun computeBoundaryPointsRecursively ::
  "nat \<Rightarrow> real \<Rightarrow> real \<Rightarrow> real \<Rightarrow> real \<Rightarrow> point list \<Rightarrow> real \<Rightarrow> real \<Rightarrow> point list option"
where
  "computeBoundaryPointsRecursively 0 theta baseRadiusPx windAngleRad k points stepIncrement minDistance = None"
| "computeBoundaryPointsRecursively (Suc depth) theta baseRadiusPx windAngleRad k points stepIncrement minDistance =
     (if theta > 2 * pi then Some points
      else
        let r = baseRadiusPx * (1 + k * cos (theta - windAngleRad));
            x = r * cos theta;
            y = r * sin theta;
            newPoint = \<lparr>px = x, py = y\<rparr>;
            points' =
              (if length points = 0 then points @ [newPoint]
               else
                 let lastPoint = points ! (length points - 1);
                     dx = px newPoint - px lastPoint;
                     dy = py newPoint - py lastPoint;
                     dist = sqrt (dx * dx + dy * dy)
                 in if dist \<ge> minDistance then points @ [newPoint] else points)
        in computeBoundaryPointsRecursively depth (theta + stepIncrement) baseRadiusPx windAngleRad k
             points' stepIncrement minDistance)"

text \<open>
  \<open>getCustomFireFrontPoints(baseRadiusPx, windAngleDeg, directionalFactor, minDistance = 3)\<close>:
  the last parameter is optional, \<open>None\<close> is the call that leaves it out.
\<close>

definition getCustomFireFrontPoints ::
  "nat \<Rightarrow> real \<Rightarrow> real \<Rightarrow> real \<Rightarrow> real option \<Rightarrow> point list option"
where
  "getCustomFireFrontPoints depth baseRadiusPx windAngleDeg directionalFactor minDistanceArg =
     (let minDistance = (case minDistanceArg of None \<Rightarrow> 3 | Some d \<Rightarrow> d);
          windAngleRad = windAngleDeg * pi / 180;
          weightMultiplier = 1.5;
          k = (directionalFactor - 1) * weightMultiplier;
          stepIncrement = 0.01
      in computeBoundaryPointsRecursively depth 0 baseRadiusPx windAngleRad k [] stepIncrement minDistance)"


subsection \<open>The boundary generator as the specification words it\<close>

text \<open>
  The specification's formulas: \<open>k = (directionalFactor - 1) * 1.5\<close>,
  \<open>r(\<theta>) = baseRadius * (1 + k * cos(\<theta> - windDirectionRad))\<close> and
  \<open>point = (r(\<theta>) cos \<theta>, r(\<theta>) sin \<theta>)\<close>.
\<close>

definition specCandidate :: "real \<Rightarrow> real \<Rightarrow> real \<Rightarrow> real \<Rightarrow> point" where
  "specCandidate baseRadius windDirectionDeg directionalFactor theta =
     (let windDirectionRad = windDirectionDeg * pi / 180;
          k = (directionalFactor - 1) * 1.5;
          r = baseRadius * (1 + k * cos (theta - windDirectionRad))
      in \<lparr>px = r * cos theta, py = r * sin theta\<rparr>)"

definition euclid :: "point \<Rightarrow> point \<Rightarrow> real" where
  "euclid p q = sqrt ((px q - px p) * (px q - px p) + (py q - py p) * (py q - py p))"

text \<open>
  A point is appended only if it is the first point, or its distance to the previously
  accepted point is at least the minimum spacing.
\<close>

definition specAccept :: "real \<Rightarrow> point list \<Rightarrow> point \<Rightarrow> point list" where
  "specAccept minSpacing accepted p =
     (if accepted = [] \<or> minSpacing \<le> euclid (last accepted) p then accepted @ [p] else accepted)"

text \<open>The angles from 0 in fixed increments of 0.01 rad: \<open>0, 0.01, ..., 6.28\<close>.\<close>

definition specAngles :: "real list" where
  "specAngles = map (\<lambda>n. real n * 0.01) [0..<629]"

definition specMinSpacing :: "real option \<Rightarrow> real" where
  "specMinSpacing minSpacingArg = (case minSpacingArg of None \<Rightarrow> 3 | Some d \<Rightarrow> d)"

definition specBoundary :: "real \<Rightarrow> real \<Rightarrow> real \<Rightarrow> real option \<Rightarrow> point list" where
  "specBoundary baseRadius windDirectionDeg directionalFactor minSpacingArg =
     foldl (specAccept (specMinSpacing minSpacingArg)) []
       (map (specCandidate baseRadius windDirectionDeg directionalFactor) specAngles)"

text \<open>Consecutive points are never closer than the minimum spacing.\<close>

definition spaced :: "real \<Rightarrow> point list \<Rightarrow> bool" where
  "spaced minSpacing ps = (\<forall>i. Suc i < length ps \<longrightarrow> minSpacing \<le> euclid (ps ! i) (ps ! Suc i))"


section \<open>Global variables and the page (script.js, lines 12 to 49)\<close>

text \<open>
  The repository holds two variants of the script: \<open>script.js\<close> and an unnamed second file.
  They differ in a few constants, which the model takes from the variant.
\<close>

datatype variant = ScriptJs | Part000

definition bestMultiplier :: real where "bestMultiplier = 0.8"
definition neutralMultiplier :: real where "neutralMultiplier = 1.0"
definition worstMultiplier :: real where "worstMultiplier = 1.2"

text \<open>
  \<open>script.js\<close>: ``Changed displayScaleFactor from 10 to 5 for a more moderate appearance'';
  the other file has 1.
\<close>

definition displayScaleFactor :: "variant \<Rightarrow> real" where
  "displayScaleFactor v = (case v of ScriptJs \<Rightarrow> 5 | Part000 \<Rightarrow> 1)"

definition totalSimTimeMin :: real where "totalSimTimeMin = 30"
definition simTimeStepMinutes :: real where "simTimeStepMinutes = 1.0"
definition simulationSteps :: real where "simulationSteps = totalSimTimeMin / simTimeStepMinutes"

text \<open>What has been drawn on the canvas since it was last cleared.\<close>

datatype shape = FireDot point | Scenario "point list" string

text \<open>A callback handed to \<open>setTimeout\<close>: the call it will make.\<close>

datatype callback = Animate nat real | UpdateEnv nat

datatype js_error = TypeError | RangeError

text \<open>
  The script's global variables, and the parts of the page it writes: the canvas, the time
  slider and its label (in simulated minutes), the four text elements, the emergency
  message, the messages shown by \<open>alert\<close>, the pending timers with their delays in
  milliseconds, and the environmental requests sent so far.
\<close>

record sim_state =
  fireStartLatLng :: "latlng option"
  currentCenter :: "latlng option"
  simulationRunning :: bool
  effectiveSpreadRate :: real
  globalWindDegree :: real
  globalDirectionalFactor :: real
  fireResourceMarkers :: "latlng list"
  canvas :: "shape list"
  timeSliderValue :: real
  timeValueMinutes :: real
  coordsText :: string
  addressText :: string
  gptReasoningText :: string
  nearestFireStationText :: string
  emergencyCallShown :: bool
  alerts :: "string list"
  timers :: "(callback \<times> real) list"
  envFetches :: "latlng list"

text \<open>
  The state when the script has loaded and nothing has been clicked: the globals as
  lines 12 to 22 initialise them, the texts as \<open>clearFire\<close> writes them.
\<close>

definition loadedState :: sim_state where
  "loadedState =
     \<lparr>fireStartLatLng = None, currentCenter = None, simulationRunning = False,
      effectiveSpreadRate = 1.0, globalWindDegree = 0, globalDirectionalFactor = 1.0,
      fireResourceMarkers = [], canvas = [], timeSliderValue = 0, timeValueMinutes = 0,
      coordsText = ''Coordinates: Not set'', addressText = ''Address: Not set'',
      gptReasoningText = ''Reasoning: Not set'',
      nearestFireStationText = ''Nearest fire station: Not set'',
      emergencyCallShown = False, alerts = [], timers = [], envFetches = []\<rparr>"


section \<open>Meters to pixels (script.js, lines 80 to 91)\<close>

text \<open>
  \<open>map.latLngToContainerPoint\<close> belongs to the map library; the model takes it as the
  parameter \<open>proj\<close>. In floating point \<open>Math.cos\<close> never returns exactly 0, so
  \<open>meterPerDegree\<close> is never 0 in the program; on the reals it is 0 at latitude 90, and
  the value of the model there means nothing.
\<close>

definition metersToPixels :: "variant \<Rightarrow> (latlng \<Rightarrow> point) \<Rightarrow> sim_state \<Rightarrow> real \<Rightarrow> real" where
  "metersToPixels v proj st meters =
     (let center =
            (case v of
               ScriptJs \<Rightarrow> (case currentCenter st of Some c \<Rightarrow> Some c | None \<Rightarrow> fireStartLatLng st)
             | Part000 \<Rightarrow> fireStartLatLng st)
      in case center of
           None \<Rightarrow> meters
         | Some c \<Rightarrow>
             let meterPerDegree = (40075000 * cos (lat c * pi / 180)) / 360;
                 offsetLng = lng c + (meters / meterPerDegree);
                 offsetLatLng = \<lparr>lat = lat c, lng = offsetLng\<rparr>;
                 p1 = proj c;
                 p2 = proj offsetLatLng
             in \<bar>px p2 - px p1\<bar>)"


section \<open>Environmental data (script.js, lines 178 to 231)\<close>

text \<open>
  The fields of \<open>data.current\<close> the script reads. \<open>precip_mm\<close> may be missing:
  \<open>data.current.precip_mm || 0\<close>.
\<close>

record weatherCurrent =
  temp_c :: real
  wind_kph :: real
  wind_degree :: real
  humidity :: real
  precip_mm :: "real option"

text \<open>
  Line 201. In \<open>script.js\<close> both branches are \<open>'sparse'\<close>; in the other file forest and
  wood are \<open>'dense'\<close>.
\<close>

definition fuelTypeOf :: "variant \<Rightarrow> string \<Rightarrow> string" where
  "fuelTypeOf v landCover =
     (case v of
        ScriptJs \<Rightarrow> (if landCover = ''forest'' \<or> landCover = ''wood'' then ''sparse'' else ''sparse'')
      | Part000 \<Rightarrow> (if landCover = ''forest'' \<or> landCover = ''wood'' then ''dense'' else ''sparse''))"

text \<open>
  What \<open>updateEnvironmentalData\<close> does to the globals once its requests have settled.
  \<open>weather\<close> is \<open>data.current\<close> (\<open>None\<close>: the request failed or the answer has no
  \<open>current\<close>); \<open>terrain\<close> is the slope and the land cover (\<open>None\<close>: one of the two
  lookups failed). A failure leaves the globals written so far and changes nothing else.
\<close>

definition updateEnvironmentalData ::
  "variant \<Rightarrow> weatherCurrent option \<Rightarrow> (real \<times> string) option \<Rightarrow> sim_state \<Rightarrow> sim_state"
where
  "updateEnvironmentalData v weather terrain st =
     (case weather of
        None \<Rightarrow> st
      | Some current \<Rightarrow>
          let temperature = temp_c current;
              windSpeedKph = wind_kph current;
              windSpeedMs = windSpeedKph / 3.6;
              windDegree = wind_degree current;
              humidity' = humidity current;
              precip = (case precip_mm current of None \<Rightarrow> 0 | Some p \<Rightarrow> p);
              st1 = st\<lparr>globalWindDegree := windDegree,
                       globalDirectionalFactor := exp (0.1 * windSpeedMs)\<rparr>;
              windModifier = exp (0.05 * windSpeedMs)
          in case terrain of
               None \<Rightarrow> st1
             | Some (slope, landCover) \<Rightarrow>
                 let fuelType = fuelTypeOf v landCover;
                     baseSpreadRate = 1.0;
                     temperatureModifier = 1 + ((temperature - 20) * 0.05);
                     humidityModifier = 1 - ((humidity' / 100) * 0.5);
                     precipitationModifier = 1 - min 0.5 (precip * 0.2);
                     slopeModifier = exp (1.0 * (slope / 100));
                     fuelModifier = (if fuelType = ''dense'' then 1.2 else 1.0);
                     landCoverModifier =
                       (if landCover = ''forest'' then 1.2
                        else if landCover = ''urban'' \<or> landCover = ''residential'' then 0.8 else 1.0)
                 in st1\<lparr>effectiveSpreadRate :=
                          baseSpreadRate * windModifier * temperatureModifier *
                          slopeModifier * fuelModifier * humidityModifier *
                          precipitationModifier * landCoverModifier\<rparr>)"


subsection \<open>The rate model as the specification words it\<close>

datatype fuelDensity = Dense | Sparse

datatype landCoverClass = Forest | Urban | Residential | Other

record envSample =
  temperatureC :: real
  windSpeedMs :: real
  windDirectionDeg :: real
  humidityPct :: real
  precipMm :: real
  slopePct :: real
  fuelDensityClass :: fuelDensity
  landCoverKind :: landCoverClass

definition specSpreadRate :: "envSample \<Rightarrow> real" where
  "specSpreadRate s =
     1.0 * exp (0.05 * windSpeedMs s) * (1 + (temperatureC s - 20) * 0.05) *
     exp (slopePct s / 100) *
     (case fuelDensityClass s of Dense \<Rightarrow> 1.2 | Sparse \<Rightarrow> 1.0) *
     (1 - (humidityPct s / 100) * 0.5) *
     (1 - min 0.5 (precipMm s * 0.2)) *
     (case landCoverKind s of Forest \<Rightarrow> 1.2 | Urban \<Rightarrow> 0.8 | Residential \<Rightarrow> 0.8 | Other \<Rightarrow> 1.0)"

text \<open>The environmental sample that the fetched data stand for.\<close>

definition sampleOf :: "variant \<Rightarrow> weatherCurrent \<Rightarrow> real \<Rightarrow> string \<Rightarrow> envSample" where
  "sampleOf v current slope landCover =
     \<lparr>temperatureC = temp_c current,
      windSpeedMs = wind_kph current / 3.6,
      windDirectionDeg = wind_degree current,
      humidityPct = humidity current,
      precipMm = (case precip_mm current of None \<Rightarrow> 0 | Some p \<Rightarrow> p),
      slopePct = slope,
      fuelDensityClass = (if fuelTypeOf v landCover = ''dense'' then Dense else Sparse),
      landCoverKind =
        (if landCover = ''forest'' then Forest
         else if landCover = ''urban'' then Urban
         else if landCover = ''residential'' then Residential
         else Other)\<rparr>"


section \<open>Drawing (script.js, lines 110 to 121 and 411 to 430)\<close>

definition drawMap :: "sim_state \<Rightarrow> sim_state" where
  "drawMap st = st\<lparr>canvas := []\<rparr>"

definition drawFire :: "(latlng \<Rightarrow> point) \<Rightarrow> sim_state \<Rightarrow> sim_state" where
  "drawFire proj st =
     (case fireStartLatLng st of
        None \<Rightarrow> st
      | Some ign \<Rightarrow> st\<lparr>canvas := canvas st @ [FireDot (proj ign)]\<rparr>)"

text \<open>The closed path through the points, each offset by the ignition point's position.\<close>

definition drawScenario :: "point \<Rightarrow> point list \<Rightarrow> string \<Rightarrow> sim_state \<Rightarrow> sim_state" where
  "drawScenario cp pointsArray color st =
     st\<lparr>canvas := canvas st @
           [Scenario (map (\<lambda>pt. \<lparr>px = px cp + px pt, py = py cp + py pt\<rparr>) pointsArray) color]\<rparr>"


section \<open>Simulation and animation (script.js, lines 376 to 444)\<close>

text \<open>Lines 399 to 401: the radius of a scenario in meters.\<close>

definition scenarioRadius :: "real \<Rightarrow> nat \<Rightarrow> sim_state \<Rightarrow> real" where
  "scenarioRadius multiplier timeIndex st = real timeIndex * effectiveSpreadRate st * multiplier"

text \<open>Lines 403 to 405: the radius handed to \<open>getCustomFireFrontPoints\<close>.\<close>

definition scenarioRadiusPx ::
  "variant \<Rightarrow> (latlng \<Rightarrow> point) \<Rightarrow> real \<Rightarrow> nat \<Rightarrow> sim_state \<Rightarrow> real" where
  "scenarioRadiusPx v proj multiplier timeIndex st =
     metersToPixels v proj st (scenarioRadius multiplier timeIndex st) * displayScaleFactor v"

text \<open>
  One call of \<open>animateFireSpread\<close>. The result is the state it leaves and the error it
  threw, if any: the map library's \<open>latLngToContainerPoint\<close> reads the fields of its
  argument, which on \<open>null\<close> raises \<open>TypeError\<close>; a boundary generator that finds no room
  on the call stack raises \<open>RangeError\<close>. What the call wrote before the error stays written.
\<close>

definition animateFireSpread ::
  "variant \<Rightarrow> nat \<Rightarrow> (latlng \<Rightarrow> point) \<Rightarrow> nat \<Rightarrow> real \<Rightarrow> sim_state \<Rightarrow> js_error option \<times> sim_state"
where
  "animateFireSpread v depth proj timeIndex totalRealTime st =
     (if real timeIndex \<ge> simulationSteps then (None, st\<lparr>simulationRunning := False\<rparr>)
      else
        let st1 = drawMap st
        in case fireStartLatLng st1 of
             None \<Rightarrow> (Some TypeError, st1)
           | Some ign \<Rightarrow>
               let cp = proj ign;
                   st2 = drawFire proj st1;
                   bestRadiusPx = scenarioRadiusPx v proj bestMultiplier timeIndex st2;
                   neutralRadiusPx = scenarioRadiusPx v proj neutralMultiplier timeIndex st2;
                   worstRadiusPx = scenarioRadiusPx v proj worstMultiplier timeIndex st2
               in case getCustomFireFrontPoints depth bestRadiusPx
                         (globalWindDegree st2) (globalDirectionalFactor st2) None of
                    None \<Rightarrow> (Some RangeError, st2)
                  | Some bestPoints \<Rightarrow>
               (case getCustomFireFrontPoints depth neutralRadiusPx
                         (globalWindDegree st2) (globalDirectionalFactor st2) None of
                    None \<Rightarrow> (Some RangeError, st2)
                  | Some neutralPoints \<Rightarrow>
               (case getCustomFireFrontPoints depth worstRadiusPx
                         (globalWindDegree st2) (globalDirectionalFactor st2) None of
                    None \<Rightarrow> (Some RangeError, st2)
                  | Some worstPoints \<Rightarrow>
                      let st3 = drawScenario cp bestPoints ''green'' st2;
                          st4 = drawScenario cp neutralPoints ''yellow'' st3;
                          st5 = drawScenario cp worstPoints ''orange'' st4;
                          simulatedMinutes = real timeIndex * simTimeStepMinutes;
                          st6 = st5\<lparr>timeSliderValue := real timeIndex,
                                   timeValueMinutes := simulatedMinutes\<rparr>;
                          delay = totalRealTime / simulationSteps
                      in (None, st6\<lparr>timers := timers st6 @
                                     [(Animate (timeIndex + 1) totalRealTime, delay)]\<rparr>))))"

text \<open>
  \<open>simulateFireSpread\<close>. The run time in seconds is read from an input element:
  \<open>parseFloat(value) || 10\<close>, and 10 when the element is missing. \<open>None\<close> is a missing
  element or a value that is not a number.
\<close>

definition simulateFireSpread ::
  "variant \<Rightarrow> nat \<Rightarrow> (latlng \<Rightarrow> point) \<Rightarrow> real option \<Rightarrow> sim_state \<Rightarrow> js_error option \<times> sim_state"
where
  "simulateFireSpread v depth proj simRunTimeSecInput st =
     (case fireStartLatLng st of
        None \<Rightarrow>
          (None, st\<lparr>alerts := alerts st @
             [''Please click on the map to set the starting point of the fire first.'']\<rparr>)
      | Some ign \<Rightarrow>
          let simRunTimeSec =
                (case simRunTimeSecInput of None \<Rightarrow> 10 | Some s \<Rightarrow> if s = 0 then 10 else s);
              totalRealTime = simRunTimeSec * 1000
          in animateFireSpread v depth proj 0 totalRealTime (st\<lparr>simulationRunning := True\<rparr>))"

text \<open>Lines 458 to 472. The reasoning text differs between the two files.\<close>

definition clearFire :: "variant \<Rightarrow> sim_state \<Rightarrow> sim_state" where
  "clearFire v st =
     st\<lparr>canvas := [],
        fireStartLatLng := None,
        coordsText := ''Coordinates: Not set'',
        addressText := ''Address: Not set'',
        gptReasoningText := (case v of ScriptJs \<Rightarrow> ''Reasoning: Not set'' | Part000 \<Rightarrow> ''Reasoning: None''),
        nearestFireStationText := ''Nearest fire station: Not set'',
        timeSliderValue := 0,
        timeValueMinutes := 0,
        emergencyCallShown := False,
        fireResourceMarkers := []\<rparr>"

text \<open>
  Lines 477 to 486. \<open>updateEnvironmentalData(fireStartLatLng)\<close> sends requests whose
  answers arrive later; the model records the request.
\<close>

definition recursiveUpdateEnvData :: "nat \<Rightarrow> sim_state \<Rightarrow> sim_state" where
  "recursiveUpdateEnvData iteration st =
     (if \<not> simulationRunning st then st
      else
        let st1 = (case fireStartLatLng st of
                     None \<Rightarrow> st
                   | Some ign \<Rightarrow> st\<lparr>envFetches := envFetches st @ [ign]\<rparr>)
        in st1\<lparr>timers := timers st1 @ [(UpdateEnv (iteration + 1), 1000)]\<rparr>)"

text \<open>
  The click handler of the start button (lines 491 to 498). An error thrown by
  \<open>simulateFireSpread\<close> ends the handler before \<open>recursiveUpdateEnvData(1)\<close>.
\<close>

definition setFireButtonClick ::
  "variant \<Rightarrow> nat \<Rightarrow> (latlng \<Rightarrow> point) \<Rightarrow> real option \<Rightarrow> sim_state \<Rightarrow> sim_state" where
  "setFireButtonClick v depth proj simRunTimeSecInput st =
     (case fireStartLatLng st of
        Some ign \<Rightarrow>
          (case simulateFireSpread v depth proj simRunTimeSecInput st of
             (None, st1) \<Rightarrow> recursiveUpdateEnvData 1 st1
           | (Some e, st1) \<Rightarrow> st1)
      | None \<Rightarrow>
          st\<lparr>alerts := alerts st @
             [''Please click on the map to set the starting point of the fire first.'']\<rparr>)"

text \<open>
  The timer with index \<open>i\<close> among the pending ones comes due: it leaves the list and its
  callback runs. An error thrown by the callback is reported on the console and the page
  goes on with the state the callback left.
\<close>

definition fireTimer :: "variant \<Rightarrow> nat \<Rightarrow> (latlng \<Rightarrow> point) \<Rightarrow> nat \<Rightarrow> sim_state \<Rightarrow> sim_state" where
  "fireTimer v depth proj i st =
     (if i < length (timers st) then
        let st' = st\<lparr>timers := take i (timers st) @ drop (Suc i) (timers st)\<rparr>
        in case fst (timers st ! i) of
             Animate timeIndex totalRealTime \<Rightarrow>
               snd (animateFireSpread v depth proj timeIndex totalRealTime st')
           | UpdateEnv iteration \<Rightarrow> recursiveUpdateEnvData iteration st'
      else st)"


section \<open>The boundary sampler: unrolling the recursion\<close>

text \<open>
  The conditional \<open>push\<close> in the body of \<open>computeBoundaryPointsRecursively\<close> is the
  acceptance rule of the specification, so one call is one step of the rule followed by
  the call for the next angle.
\<close>

lemma step_eq_specAccept:
  "(if length points = 0 then points @ [p]
    else if sqrt ((px p - px (points ! (length points - 1))) * (px p - px (points ! (length points - 1))) +
                  (py p - py (points ! (length points - 1))) * (py p - py (points ! (length points - 1))))
            \<ge> minDistance
         then points @ [p] else points)
   = specAccept minDistance points p"
  by (simp add: specAccept_def euclid_def last_conv_nth)

lemma cbp_Suc:
  "computeBoundaryPointsRecursively (Suc depth) theta R w k pts step minD =
     (if theta > 2 * pi then Some pts
      else computeBoundaryPointsRecursively depth (theta + step) R w k
             (specAccept minD pts
                \<lparr>px = R * (1 + k * cos (theta - w)) * cos theta,
                 py = R * (1 + k * cos (theta - w)) * sin theta\<rparr>) step minD)"
  by (simp only: computeBoundaryPointsRecursively.simps Let_def step_eq_specAccept)

text \<open>
  If the angles \<open>theta, theta + step, ...\<close> stay within \<open>2 * pi\<close> for exactly \<open>m\<close> steps and
  the call stack has room for more than \<open>m\<close> frames, the recursion returns the fold of the
  acceptance rule over the \<open>m\<close> candidates. With room for no more frames than there are
  angles within \<open>2 * pi\<close> it does not return.
\<close>

lemma cbp_unroll:
  assumes "\<forall>i<m. theta + real i * step \<le> 2 * pi"
    and "theta + real m * step > 2 * pi"
    and "m < depth"
  shows "computeBoundaryPointsRecursively depth theta R w k pts step minD =
         Some (foldl (specAccept minD) pts
           (map (\<lambda>i. \<lparr>px = R * (1 + k * cos (theta + real i * step - w)) * cos (theta + real i * step),
                        py = R * (1 + k * cos (theta + real i * step - w)) * sin (theta + real i * step)\<rparr>)
              [0..<m]))"
  using assms
proof (induction m arbitrary: theta pts depth)
  case 0
  then obtain d where d: "depth = Suc d" by (cases depth) auto
  from 0 show ?case by (simp add: d cbp_Suc del: computeBoundaryPointsRecursively.simps)
next
  case (Suc m)
  then obtain d where d: "depth = Suc d" by (cases depth) auto
  have le: "theta \<le> 2 * pi" using Suc.prems(1) [rule_format, of 0] by simp
  have a1: "\<forall>i<m. (theta + step) + real i * step \<le> 2 * pi"
  proof (intro allI impI)
    fix i assume "i < m"
    then have "theta + real (Suc i) * step \<le> 2 * pi" using Suc.prems(1) by auto
    then show "(theta + step) + real i * step \<le> 2 * pi" by (simp add: algebra_simps)
  qed
  have a2: "(theta + step) + real m * step > 2 * pi"
    using Suc.prems(2) by (simp add: algebra_simps)
  have a3: "m < d" using Suc.prems(3) d by simp
  have sh: "theta + step + real i * step = theta + real (Suc i) * step" for i
    by (simp add: algebra_simps)
  note ih = Suc.IH [OF a1 a2 a3, unfolded sh]
  have upt: "[0..<Suc m] = 0 # map Suc [0..<m]"
    by (simp add: upt_conv_Cons map_Suc_upt del: upt_Suc)
  show ?case
    unfolding d upt
    using le
    by (simp add: cbp_Suc ih o_def del: computeBoundaryPointsRecursively.simps upt_Suc of_nat_Suc)
qed

lemma cbp_overflow:
  assumes "\<forall>i<depth. theta + real i * step \<le> 2 * pi"
  shows "computeBoundaryPointsRecursively depth theta R w k pts step minD = None"
  using assms
proof (induction depth arbitrary: theta pts)
  case 0
  show ?case by simp
next
  case (Suc depth)
  have le: "theta \<le> 2 * pi" using Suc.prems [rule_format, of 0] by simp
  have a1: "\<forall>i<depth. (theta + step) + real i * step \<le> 2 * pi"
  proof (intro allI impI)
    fix i assume "i < depth"
    then have "theta + real (Suc i) * step \<le> 2 * pi" using Suc.prems by auto
    then show "(theta + step) + real i * step \<le> 2 * pi" by (simp add: algebra_simps)
  qed
  show ?case using le by (simp add: cbp_Suc Suc.IH [OF a1] del: computeBoundaryPointsRecursively.simps)
qed


text \<open>
  \<open>3.14 < pi < 3.145\<close>, from the Maclaurin expansion of the cosine at 1.57 and 1.5725.
  Hence \<open>628 * 0.01 \<le> 2 * pi < 629 * 0.01\<close>.
\<close>

lemma cos_157_pos: "0 < cos (157/100 :: real)"
proof -
  obtain t :: real where
    e: "cos (157/100) = (\<Sum>m<10. cos_coeff m * (157/100) ^ m) + (cos (t + 1/2 * real (10::nat) * pi) / fact 10) * (157/100) ^ 10"
    using Maclaurin_cos_expansion [of "157/100" 10] by blast
  have "- 1 \<le> cos (t + 1/2 * real (10::nat) * pi)" by (rule cos_ge_minus_one)
  then have "- ((157/100) ^ 10 / fact 10) \<le> (cos (t + 1/2 * real (10::nat) * pi) / fact 10) * (157/100 :: real) ^ 10"
    by (simp add: field_simps)
  moreover have "0 < (\<Sum>m<10. cos_coeff m * (157/100 :: real) ^ m) - ((157/100) ^ 10 / fact 10)"
    by (simp add: cos_coeff_def lessThan_nat_numeral fact_numeral power_divide)
  ultimately show ?thesis using e by linarith
qed

lemma cos_629_neg: "cos (629/400 :: real) < 0"
proof -
  obtain t :: real where
    e: "cos (629/400) = (\<Sum>m<10. cos_coeff m * (629/400) ^ m) + (cos (t + 1/2 * real (10::nat) * pi) / fact 10) * (629/400) ^ 10"
    using Maclaurin_cos_expansion [of "629/400" 10] by blast
  have "cos (t + 1/2 * real (10::nat) * pi) \<le> 1" by (rule cos_le_one)
  then have "(cos (t + 1/2 * real (10::nat) * pi) / fact 10) * (629/400 :: real) ^ 10 \<le> (629/400) ^ 10 / fact 10"
    by (simp add: field_simps)
  moreover have "(\<Sum>m<10. cos_coeff m * (629/400 :: real) ^ m) + ((629/400) ^ 10 / fact 10) < 0"
    by (simp add: cos_coeff_def lessThan_nat_numeral fact_numeral power_divide)
  ultimately show ?thesis using e by linarith
qed

lemma pi_lower: "314/100 < pi"
proof (rule ccontr)
  assume "\<not> 314/100 < pi"
  then have "pi/2 \<le> 157/100" by simp
  moreover have "(157/100::real) \<le> pi" using pi_ge_two by linarith
  ultimately have "cos (157/100) \<le> cos (pi/2)"
    by (intro cos_monotone_0_pi_le) auto
  with cos_157_pos show False by simp
qed

lemma pi_upper: "pi < 629/200"
proof (rule ccontr)
  assume "\<not> pi < 629/200"
  then have "629/400 \<le> pi/2" by simp
  then have "0 \<le> cos (629/400::real)" by (intro cos_ge_zero) auto
  with cos_629_neg show False by simp
qed

lemma angle_in_turn: "real n * 0.01 \<le> 2 * pi \<longleftrightarrow> n < 629"
proof
  assume "real n * 0.01 \<le> 2 * pi"
  then have "real n < 629" using pi_upper by simp
  then show "n < 629" by simp
next
  assume "n < 629"
  then have "real n \<le> 628" by simp
  then show "real n * 0.01 \<le> 2 * pi" using pi_lower by simp
qed

lemma getCustom_returns:
  assumes "630 \<le> depth"
  shows "getCustomFireFrontPoints depth R deg df md = Some (specBoundary R deg df md)"
proof -
  have a: "\<forall>i<629. 0 + real i * 0.01 \<le> 2 * pi" using angle_in_turn by simp
  have b: "0 + real (629::nat) * 0.01 > 2 * pi" using angle_in_turn [of 629] by simp
  have c: "629 < depth" using assms by simp
  show ?thesis
    unfolding getCustomFireFrontPoints_def Let_def specBoundary_def specAngles_def
      specMinSpacing_def
    by (simp only: cbp_unroll [OF a b c]) (simp add: specCandidate_def o_def Let_def)
qed

lemma getCustom_overflow:
  assumes "depth < 630"
  shows "getCustomFireFrontPoints depth R deg df md = None"
proof -
  have "\<forall>i<depth. 0 + real i * 0.01 \<le> 2 * pi" using angle_in_turn assms by simp
  then show ?thesis
    unfolding getCustomFireFrontPoints_def Let_def by (rule cbp_overflow)
qed

text \<open>What the fold of the acceptance rule keeps: length, membership and spacing.\<close>

lemma length_specAccept: "length (specAccept m ps p) \<le> Suc (length ps)"
  by (simp add: specAccept_def)

lemma length_foldl_specAccept: "length (foldl (specAccept m) ps cs) \<le> length ps + length cs"
proof (induction cs arbitrary: ps)
  case Nil
  show ?case by simp
next
  case (Cons c cs)
  have "length (foldl (specAccept m) (specAccept m ps c) cs) \<le> length (specAccept m ps c) + length cs"
    by (rule Cons.IH)
  also have "\<dots> \<le> Suc (length ps) + length cs" using length_specAccept [of m ps c] by simp
  finally show ?case by simp
qed

lemma foldl_specAccept_keeps: "ps \<noteq> [] \<Longrightarrow> foldl (specAccept m) ps cs \<noteq> []"
  by (induction cs arbitrary: ps) (simp_all add: specAccept_def)

lemma foldl_specAccept_nonempty: "cs \<noteq> [] \<Longrightarrow> foldl (specAccept m) [] cs \<noteq> []"
  by (cases cs) (simp_all add: foldl_specAccept_keeps specAccept_def)

lemma set_foldl_specAccept: "set (foldl (specAccept m) ps cs) \<subseteq> set ps \<union> set cs"
proof (induction cs arbitrary: ps)
  case Nil
  show ?case by simp
next
  case (Cons c cs)
  have "set (specAccept m ps c) \<subseteq> set ps \<union> {c}" by (auto simp: specAccept_def)
  with Cons.IH [of "specAccept m ps c"] show ?case by auto
qed

lemma spaced_specAccept: "spaced m ps \<Longrightarrow> spaced m (specAccept m ps p)"
proof (cases "ps = [] \<or> m \<le> euclid (last ps) p")
  case False
  assume "spaced m ps"
  with False show ?thesis by (simp add: specAccept_def)
next
  case True
  assume sp: "spaced m ps"
  show ?thesis
    unfolding spaced_def
  proof (intro allI impI)
    fix i assume i: "Suc i < length (specAccept m ps p)"
    from True have eq: "specAccept m ps p = ps @ [p]" by (auto simp: specAccept_def)
    show "m \<le> euclid (specAccept m ps p ! i) (specAccept m ps p ! Suc i)"
    proof (cases "Suc i < length ps")
      case True
      then show ?thesis using sp by (simp add: eq spaced_def nth_append)
    next
      case False
      with i eq have si: "Suc i = length ps" by simp
      then have ne: "ps \<noteq> []" by auto
      with True have "m \<le> euclid (last ps) p" by simp
      moreover have "last ps = ps ! i" using si [symmetric] ne by (simp add: last_conv_nth)
      ultimately show ?thesis using si by (simp add: eq nth_append)
    qed
  qed
qed

lemma spaced_foldl_specAccept: "spaced m ps \<Longrightarrow> spaced m (foldl (specAccept m) ps cs)"
  by (induction cs arbitrary: ps) (simp_all add: spaced_specAccept)

lemma spaced_Nil: "spaced m []"
  by (simp add: spaced_def)


section \<open>One tick of the animator\<close>

lemma simulationSteps_30: "simulationSteps = 30"
  by (simp add: simulationSteps_def totalSimTimeMin_def simTimeStepMinutes_def)

lemma metersToPixels_canvas [simp]:
  "metersToPixels v proj (st\<lparr>canvas := c\<rparr>) m = metersToPixels v proj st m"
  by (simp add: metersToPixels_def split: variant.splits option.splits)

lemma scenarioRadiusPx_canvas [simp]:
  "scenarioRadiusPx v proj mult t (st\<lparr>canvas := c\<rparr>) = scenarioRadiusPx v proj mult t st"
  by (simp add: scenarioRadiusPx_def scenarioRadius_def)

text \<open>
  A call of \<open>animateFireSpread\<close> before the last time index, with an ignition point and
  room on the call stack: the state it leaves.
\<close>

lemma animate_tick:
  assumes "timeIndex < 30" and "fireStartLatLng st = Some ign" and "630 \<le> depth"
  shows "animateFireSpread v depth proj timeIndex totalRealTime st =
     (None,
      st\<lparr>canvas :=
           [FireDot (proj ign),
            Scenario (map (\<lambda>pt. \<lparr>px = px (proj ign) + px pt, py = py (proj ign) + py pt\<rparr>)
              (specBoundary (scenarioRadiusPx v proj bestMultiplier timeIndex st)
                 (globalWindDegree st) (globalDirectionalFactor st) None)) ''green'',
            Scenario (map (\<lambda>pt. \<lparr>px = px (proj ign) + px pt, py = py (proj ign) + py pt\<rparr>)
              (specBoundary (scenarioRadiusPx v proj neutralMultiplier timeIndex st)
                 (globalWindDegree st) (globalDirectionalFactor st) None)) ''yellow'',
            Scenario (map (\<lambda>pt. \<lparr>px = px (proj ign) + px pt, py = py (proj ign) + py pt\<rparr>)
              (specBoundary (scenarioRadiusPx v proj worstMultiplier timeIndex st)
                 (globalWindDegree st) (globalDirectionalFactor st) None)) ''orange''],
         timeSliderValue := real timeIndex,
         timeValueMinutes := real timeIndex,
         timers := timers st @ [(Animate (Suc timeIndex) totalRealTime, totalRealTime / 30)]\<rparr>)"
  using assms
  by (simp add: animateFireSpread_def simulationSteps_30 drawMap_def drawFire_def drawScenario_def
      getCustom_returns Let_def simTimeStepMinutes_def)

lemma animate_done:
  assumes "30 \<le> timeIndex"
  shows "animateFireSpread v depth proj timeIndex totalRealTime st = (None, st\<lparr>simulationRunning := False\<rparr>)"
  using assms by (simp add: animateFireSpread_def simulationSteps_30)


text \<open>The pending tick comes due: the next time index is drawn and one tick is pending again.\<close>

lemma fireTimer_tick:
  assumes ts: "timers s = ts @ [(Animate (Suc n) trt, d)]"
    and n: "Suc n < 30" and ign: "fireStartLatLng s = Some ign" and depth: "630 \<le> depth"
  shows "simulationRunning (fireTimer v depth proj (length ts) s) = simulationRunning s"
    and "fireStartLatLng (fireTimer v depth proj (length ts) s) = Some ign"
    and "timeSliderValue (fireTimer v depth proj (length ts) s) = real (Suc n)"
    and "timers (fireTimer v depth proj (length ts) s) = ts @ [(Animate (Suc (Suc n)) trt, trt / 30)]"
proof -
  let ?s' = "s\<lparr>timers := ts\<rparr>"
  have ign': "fireStartLatLng ?s' = Some ign" using ign by simp
  have "fireTimer v depth proj (length ts) s = snd (animateFireSpread v depth proj (Suc n) trt ?s')"
    by (simp add: fireTimer_def ts)
  then have eq: "fireTimer v depth proj (length ts) s =
      snd (None :: js_error option,
        ?s'\<lparr>canvas :=
           [FireDot (proj ign),
            Scenario (map (\<lambda>pt. \<lparr>px = px (proj ign) + px pt, py = py (proj ign) + py pt\<rparr>)
              (specBoundary (scenarioRadiusPx v proj bestMultiplier (Suc n) ?s')
                 (globalWindDegree ?s') (globalDirectionalFactor ?s') None)) ''green'',
            Scenario (map (\<lambda>pt. \<lparr>px = px (proj ign) + px pt, py = py (proj ign) + py pt\<rparr>)
              (specBoundary (scenarioRadiusPx v proj neutralMultiplier (Suc n) ?s')
                 (globalWindDegree ?s') (globalDirectionalFactor ?s') None)) ''yellow'',
            Scenario (map (\<lambda>pt. \<lparr>px = px (proj ign) + px pt, py = py (proj ign) + py pt\<rparr>)
              (specBoundary (scenarioRadiusPx v proj worstMultiplier (Suc n) ?s')
                 (globalWindDegree ?s') (globalDirectionalFactor ?s') None)) ''orange''],
         timeSliderValue := real (Suc n),
         timeValueMinutes := real (Suc n),
         timers := timers ?s' @ [(Animate (Suc (Suc n)) trt, trt / 30)]\<rparr>)"
    by (simp only: animate_tick [OF n ign' depth])
  show "simulationRunning (fireTimer v depth proj (length ts) s) = simulationRunning s"
    by (simp add: eq)
  show "fireStartLatLng (fireTimer v depth proj (length ts) s) = Some ign"
    using ign by (simp add: eq)
  show "timeSliderValue (fireTimer v depth proj (length ts) s) = real (Suc n)"
    by (simp add: eq)
  show "timers (fireTimer v depth proj (length ts) s) = ts @ [(Animate (Suc (Suc n)) trt, trt / 30)]"
    by (simp add: eq)
qed

lemma fireTimer_last:
  assumes ts: "timers s = ts @ [(Animate 30 trt, d)]"
  shows "fireTimer v depth proj (length ts) s = s\<lparr>timers := ts, simulationRunning := False\<rparr>"
  by (simp add: fireTimer_def ts animate_done)

lemma simulate_start:
  assumes ign: "fireStartLatLng st = Some ign" and depth: "630 \<le> depth"
  shows "simulationRunning (snd (simulateFireSpread v depth proj inp st))"
    and "fireStartLatLng (snd (simulateFireSpread v depth proj inp st)) = Some ign"
    and "timeSliderValue (snd (simulateFireSpread v depth proj inp st)) = 0"
    and "timers (snd (simulateFireSpread v depth proj inp st)) =
           timers st @ [(Animate (Suc 0) ((case inp of None \<Rightarrow> 10 | Some s \<Rightarrow> if s = 0 then 10 else s) * 1000),
                         ((case inp of None \<Rightarrow> 10 | Some s \<Rightarrow> if s = 0 then 10 else s) * 1000) / 30)]"
    and "fst (simulateFireSpread v depth proj inp st) = None"
proof -
  let ?st = "st\<lparr>simulationRunning := True\<rparr>"
  have ign': "fireStartLatLng ?st = Some ign" using ign by simp
  have z: "(0::nat) < 30" by simp
  note t = animate_tick [OF z ign' depth]
  show "simulationRunning (snd (simulateFireSpread v depth proj inp st))"
    by (simp add: simulateFireSpread_def ign Let_def t)
  show "fireStartLatLng (snd (simulateFireSpread v depth proj inp st)) = Some ign"
    by (simp add: simulateFireSpread_def ign Let_def t)
  show "timeSliderValue (snd (simulateFireSpread v depth proj inp st)) = 0"
    by (simp add: simulateFireSpread_def ign Let_def t)
  show "timers (snd (simulateFireSpread v depth proj inp st)) =
           timers st @ [(Animate (Suc 0) ((case inp of None \<Rightarrow> 10 | Some s \<Rightarrow> if s = 0 then 10 else s) * 1000),
                         ((case inp of None \<Rightarrow> 10 | Some s \<Rightarrow> if s = 0 then 10 else s) * 1000) / 30)]"
    by (simp add: simulateFireSpread_def ign Let_def t)
  show "fst (simulateFireSpread v depth proj inp st) = None"
    by (simp add: simulateFireSpread_def ign Let_def t)
qed

text \<open>The run from \<open>simulateFireSpread\<close> on, one timer at a time.\<close>

lemma run_ticks:
  fixes inp :: "real option" and v :: variant and proj :: "latlng \<Rightarrow> point"
  assumes ign: "fireStartLatLng st = Some ign" and depth: "630 \<le> depth"
    and n: "n < 30"
  defines "trt \<equiv> (case inp of None \<Rightarrow> 10 | Some s \<Rightarrow> if s = 0 then 10 else s) * 1000"
  defines "s \<equiv> ((fireTimer v depth proj (length (timers st))) ^^ n) (snd (simulateFireSpread v depth proj inp st))"
  shows "simulationRunning s \<and> fireStartLatLng s = Some ign \<and> timeSliderValue s = real n \<and>
         timers s = timers st @ [(Animate (Suc n) trt, trt / 30)]"
  using n unfolding s_def
proof (induction n)
  case 0
  show ?case using simulate_start [OF ign depth, of v proj inp] by (simp add: trt_def)
next
  case (Suc n)
  then have ih: "simulationRunning (((fireTimer v depth proj (length (timers st))) ^^ n) (snd (simulateFireSpread v depth proj inp st)))"
      "fireStartLatLng (((fireTimer v depth proj (length (timers st))) ^^ n) (snd (simulateFireSpread v depth proj inp st))) = Some ign"
      "timers (((fireTimer v depth proj (length (timers st))) ^^ n) (snd (simulateFireSpread v depth proj inp st))) =
         timers st @ [(Animate (Suc n) trt, trt / 30)]"
    by simp_all
  from Suc.prems have sn: "Suc n < 30" .
  show ?case
    using fireTimer_tick [OF ih(3) sn ih(2) depth, of v proj] ih(1)
    by simp
qed

lemma run_complete:
  fixes inp :: "real option" and v :: variant and proj :: "latlng \<Rightarrow> point"
  assumes ign: "fireStartLatLng st = Some ign" and depth: "630 \<le> depth"
  defines "s \<equiv> ((fireTimer v depth proj (length (timers st))) ^^ 30) (snd (simulateFireSpread v depth proj inp st))"
  shows "\<not> simulationRunning s \<and> timers s = timers st"
proof -
  have n: "(29::nat) < 30" by simp
  have e: "(30::nat) = Suc 29" by simp
  have s29: "timers (((fireTimer v depth proj (length (timers st))) ^^ 29) (snd (simulateFireSpread v depth proj inp st))) =
     timers st @ [(Animate 30 ((case inp of None \<Rightarrow> 10 | Some s \<Rightarrow> if s = 0 then 10 else s) * 1000),
                   ((case inp of None \<Rightarrow> 10 | Some s \<Rightarrow> if s = 0 then 10 else s) * 1000) / 30)]"
    using run_ticks [OF ign depth n, of v proj inp] by simp
  show ?thesis
    unfolding s_def e funpow.simps o_apply
    by (simp add: fireTimer_last [OF s29])
qed


section \<open>Properties of the boundary generator\<close>

lemma set_specAngles: "set specAngles = {theta. \<exists>n::nat. theta = real n * 0.01 \<and> theta \<le> 2 * pi}"
proof (rule set_eqI)
  fix theta :: real
  have "theta \<in> set specAngles \<longleftrightarrow> theta \<in> (\<lambda>n. real n * 0.01) ` {0..<629}"
    by (simp only: specAngles_def set_map set_upt)
  also have "\<dots> \<longleftrightarrow> (\<exists>n::nat. n < 629 \<and> theta = real n * 0.01)"
    unfolding image_iff Bex_def atLeastLessThan_iff by blast
  also have "\<dots> \<longleftrightarrow> (\<exists>n::nat. theta = real n * 0.01 \<and> theta \<le> 2 * pi)"
    using angle_in_turn by blast
  finally show "theta \<in> set specAngles \<longleftrightarrow>
      theta \<in> {theta. \<exists>n::nat. theta = real n * 0.01 \<and> theta \<le> 2 * pi}"
    by (simp only: mem_Collect_eq)
qed

text \<open>
  Claim C1. With room for 630 frames, the boundary generator returns the boundary of the
  specification: the angles are the multiples of 0.01 rad from 0 that do not exceed
  \<open>2 * pi\<close>, the candidate at angle \<open>\<theta>\<close> is \<open>(r cos \<theta>, r sin \<theta>)\<close> with
  \<open>r = baseRadius * (1 + k * cos (\<theta> - windDirectionRad))\<close>, \<open>k = (directionalFactor - 1) * 1.5\<close>
  and the wind direction converted from degrees to radians, and the result depends on the
  arguments only.
\<close>

theorem boundary_sampling:
  assumes "630 \<le> depth"
  shows "getCustomFireFrontPoints depth baseRadius windDeg directionalFactor minSpacingArg =
           Some (specBoundary baseRadius windDeg directionalFactor minSpacingArg) \<and>
         set specAngles = {theta. \<exists>n::nat. theta = real n * 0.01 \<and> theta \<le> 2 * pi}"
  using getCustom_returns [OF assms] set_specAngles by simp

theorem boundary_sampling_witness:
  "(630::nat) \<le> 630 \<and>
   getCustomFireFrontPoints 630 100 90 2 None = Some (specBoundary 100 90 2 None)"
  using boundary_sampling [of 630 100 90 2 None] by simp

lemma getCustom_Some_iff:
  "getCustomFireFrontPoints depth R deg df md = Some pts \<longleftrightarrow> 630 \<le> depth \<and> pts = specBoundary R deg df md"
proof (cases "630 \<le> depth")
  case True
  then show ?thesis by (auto simp: getCustom_returns)
next
  case False
  then have "depth < 630" by simp
  then show ?thesis by (simp add: getCustom_overflow)
qed

text \<open>
  Claim C2. In every boundary that the generator returns, any two consecutive points are
  at least the minimum spacing apart (3 when the argument is left out), and the boundary
  is built by appending a candidate only if it is the first point or lies at least the
  minimum spacing from the point accepted before it. Nothing is said of the segment that
  closes the polygon.
\<close>

theorem min_spacing:
  assumes "getCustomFireFrontPoints depth baseRadius windDeg directionalFactor minSpacingArg = Some pts"
    and "Suc i < length pts"
  shows "specMinSpacing minSpacingArg \<le> euclid (pts ! i) (pts ! Suc i) \<and>
         pts = foldl (specAccept (specMinSpacing minSpacingArg)) []
                 (map (specCandidate baseRadius windDeg directionalFactor) specAngles)"
proof -
  from assms(1) have pts: "pts = specBoundary baseRadius windDeg directionalFactor minSpacingArg"
    by (simp add: getCustom_Some_iff)
  have "spaced (specMinSpacing minSpacingArg) pts"
    unfolding pts specBoundary_def by (intro spaced_foldl_specAccept spaced_Nil)
  with assms(2) have "specMinSpacing minSpacingArg \<le> euclid (pts ! i) (pts ! Suc i)"
    by (simp add: spaced_def)
  then show ?thesis using pts by (simp add: specBoundary_def)
qed

text \<open>
  An example with the default spacing: at base radius 1000 without wind the candidates
  at angles 0 and 0.01 are about 10 apart, so both are accepted.
\<close>

lemma sin_hundredth: "3 / 1000 \<le> sin (1/100 :: real)"
proof -
  obtain t :: real where
    e: "sin (1/100) = (\<Sum>m<3. sin_coeff m * (1/100) ^ m) + (sin (t + 1/2 * real (3::nat) * pi) / fact 3) * (1/100) ^ 3"
    using Maclaurin_sin_expansion [of "1/100" 3] by blast
  have "- 1 \<le> sin (t + 1/2 * real (3::nat) * pi)" by (rule sin_ge_minus_one)
  then have "- ((1/100) ^ 3 / fact 3) \<le> (sin (t + 1/2 * real (3::nat) * pi) / fact 3) * (1/100 :: real) ^ 3"
    by (simp add: field_simps)
  moreover have "3 / 1000 \<le> (\<Sum>m<3. sin_coeff m * (1/100 :: real) ^ m) - ((1/100) ^ 3 / fact 3)"
    by (simp add: sin_coeff_def lessThan_nat_numeral fact_numeral power_divide)
  ultimately show ?thesis using e by linarith
qed

lemma length_foldl_specAccept_ge: "length ps \<le> length (foldl (specAccept m) ps cs)"
proof (induction cs arbitrary: ps)
  case Nil
  show ?case by simp
next
  case (Cons c cs)
  have "length ps \<le> length (specAccept m ps c)" by (simp add: specAccept_def)
  also have "\<dots> \<le> length (foldl (specAccept m) (specAccept m ps c) cs)" by (rule Cons.IH)
  finally show ?case by simp
qed

lemma length_specAngles: "length specAngles = 629"
  by (simp only: specAngles_def length_map length_upt)

lemma specAngles_nonempty: "specAngles \<noteq> []"
  using length_specAngles by auto

lemma two_points_example: "Suc 0 < length (specBoundary 1000 0 1 None)"
proof -
  let ?c = "specCandidate 1000 0 1"
  define rest where "rest = map (\<lambda>n. real n * 0.01) [Suc (Suc 0)..<629]"
  have u0: "[0..<629::nat] = 0 # [Suc 0..<629]" by (rule upt_conv_Cons) simp
  have u1: "[Suc 0..<629::nat] = Suc 0 # [Suc (Suc 0)..<629]" by (rule upt_conv_Cons) simp
  have "specAngles = (real 0 * 0.01) # (real (Suc 0) * 0.01) # rest"
    by (simp only: specAngles_def u0 u1 list.map rest_def)
  then have angles: "specAngles = 0 # (1/100) # rest" by simp
  have c0: "?c 0 = \<lparr>px = 1000, py = 0\<rparr>" by (simp add: specCandidate_def)
  have c1: "?c (1/100) = \<lparr>px = 1000 * cos (1/100), py = 1000 * sin (1/100)\<rparr>"
    by (simp add: specCandidate_def)
  have "\<bar>1000 * sin (1/100 :: real)\<bar> \<le> euclid (?c 0) (?c (1/100))"
    unfolding c0 c1 euclid_def
    by (rule real_le_rsqrt) (simp add: power2_eq_square)
  moreover have "3 \<le> \<bar>1000 * sin (1/100 :: real)\<bar>" using sin_hundredth by simp
  ultimately have far: "3 \<le> euclid (?c 0) (?c (1/100))" by linarith
  have acc: "specAccept 3 (specAccept 3 [] (?c 0)) (?c (1/100)) = [?c 0, ?c (1/100)]"
    using far by (simp add: specAccept_def)
  have "specBoundary 1000 0 1 None = foldl (specAccept 3) [?c 0, ?c (1/100)] (map ?c rest)"
    unfolding specBoundary_def specMinSpacing_def angles
    by (simp add: acc)
  moreover have "length [?c 0, ?c (1/100)] \<le> length (foldl (specAccept 3) [?c 0, ?c (1/100)] (map ?c rest))"
    by (rule length_foldl_specAccept_ge)
  ultimately show ?thesis by simp
qed

theorem min_spacing_witness:
  "getCustomFireFrontPoints 630 1000 0 1 None = Some (specBoundary 1000 0 1 None) \<and>
   Suc 0 < length (specBoundary 1000 0 1 None) \<and>
   3 \<le> euclid (specBoundary 1000 0 1 None ! 0) (specBoundary 1000 0 1 None ! Suc 0)"
proof -
  have a: "getCustomFireFrontPoints 630 1000 0 1 None = Some (specBoundary 1000 0 1 None)"
    by (simp add: getCustom_returns)
  from min_spacing [OF a two_points_example, THEN conjunct1]
  have "3 \<le> euclid (specBoundary 1000 0 1 None ! 0) (specBoundary 1000 0 1 None ! Suc 0)"
    by (simp add: specMinSpacing_def)
  with a two_points_example show ?thesis by blast
qed

lemma specCandidate_zero: "specCandidate 0 deg df theta = \<lparr>px = 0, py = 0\<rparr>"
  by (simp add: specCandidate_def)

text \<open>
  Claim C7. For any arguments the generator returns at least one point, and with base
  radius 0 every returned point is the origin.
\<close>

theorem zero_radius_degenerate:
  assumes "630 \<le> depth"
  shows "\<exists>pts. getCustomFireFrontPoints depth baseRadius windDeg directionalFactor minSpacingArg = Some pts \<and>
           pts \<noteq> [] \<and> (baseRadius = 0 \<longrightarrow> (\<forall>p\<in>set pts. px p = 0 \<and> py p = 0))"
proof -
  let ?pts = "specBoundary baseRadius windDeg directionalFactor minSpacingArg"
  have ne: "?pts \<noteq> []"
    unfolding specBoundary_def
    by (rule foldl_specAccept_nonempty) (simp add: specAngles_nonempty)
  have "\<forall>p\<in>set ?pts. px p = 0 \<and> py p = 0" if "baseRadius = 0"
  proof
    fix p assume "p \<in> set ?pts"
    then have "p \<in> set (map (specCandidate baseRadius windDeg directionalFactor) specAngles)"
      using set_foldl_specAccept unfolding specBoundary_def by fastforce
    then show "px p = 0 \<and> py p = 0" using that by (auto simp: specCandidate_zero)
  qed
  with ne getCustom_returns [OF assms] show ?thesis by blast
qed

theorem zero_radius_degenerate_witness:
  "\<exists>pts p. getCustomFireFrontPoints 630 0 45 2 None = Some pts \<and> p \<in> set pts \<and> px p = 0 \<and> py p = 0"
proof -
  obtain pts where a: "getCustomFireFrontPoints 630 0 45 2 None = Some pts" and b: "pts \<noteq> []"
    and c: "\<forall>p\<in>set pts. px p = 0 \<and> py p = 0"
    using zero_radius_degenerate [of 630 0 45 2 None] by auto
  from b have "hd pts \<in> set pts" by simp
  with a c show ?thesis by blast
qed

text \<open>
  Claim C10. For any base radius, wind angle, directional factor and minimum spacing the
  sampler returns once the call stack has room for 630 nested calls, with at most 629
  points; with room for fewer it does not return.
\<close>

theorem sampler_terminates:
  "(630 \<le> depth \<longrightarrow>
      (\<exists>pts. getCustomFireFrontPoints depth baseRadius windAngleDeg directionalFactor minDistanceArg = Some pts \<and>
             length pts \<le> 629)) \<and>
   (depth < 630 \<longrightarrow>
      getCustomFireFrontPoints depth baseRadius windAngleDeg directionalFactor minDistanceArg = None)"
proof -
  have "length (specBoundary baseRadius windAngleDeg directionalFactor minDistanceArg) \<le> 629"
    unfolding specBoundary_def
    using length_foldl_specAccept [of "specMinSpacing minDistanceArg" "[]"
        "map (specCandidate baseRadius windAngleDeg directionalFactor) specAngles"]
    by (simp add: length_specAngles)
  then show ?thesis by (simp add: getCustom_returns getCustom_overflow)
qed

theorem sampler_terminates_witness:
  "(\<exists>pts. getCustomFireFrontPoints 630 50 0 1 None = Some pts \<and> length pts \<le> 629) \<and>
   getCustomFireFrontPoints 629 50 0 1 None = None"
  using sampler_terminates [of 630 50 0 1 None] sampler_terminates [of 629 50 0 1 None] by simp


section \<open>Spread rate and scenario radii\<close>

text \<open>
  Claim C3. The spread rate that \<open>updateEnvironmentalData\<close> stores is the product of the
  specification for the sample that the fetched data stand for:
  \<open>1.0 * exp (0.05 * windSpeed) * (1 + (temperature - 20) * 0.05) * exp (slope / 100) *
  fuelModifier * (1 - (humidity / 100) * 0.5) * (1 - min 0.5 (precip * 0.2)) * landCoverModifier\<close>,
  with fuel modifier 1.2 for dense fuel and 1.0 otherwise, and land cover modifier 1.2
  for forest, 0.8 for urban or residential and 1.0 otherwise.
\<close>

theorem spread_rate_formula:
  "effectiveSpreadRate (updateEnvironmentalData v (Some current) (Some (slope, landCover)) st) =
     specSpreadRate (sampleOf v current slope landCover)"
  by (simp add: updateEnvironmentalData_def specSpreadRate_def sampleOf_def Let_def)

theorem spread_rate_formula_witness:
  "effectiveSpreadRate
     (updateEnvironmentalData ScriptJs
        (Some \<lparr>temp_c = 20, wind_kph = 0, wind_degree = 0, humidity = 0, precip_mm = Some 0\<rparr>)
        (Some (0, ''unknown'')) loadedState) = 1 \<and>
   effectiveSpreadRate
     (updateEnvironmentalData ScriptJs
        (Some \<lparr>temp_c = 20, wind_kph = 0, wind_degree = 0, humidity = 0, precip_mm = Some 0\<rparr>)
        (Some (0, ''forest'')) loadedState) = 1.2 \<and>
   effectiveSpreadRate
     (updateEnvironmentalData Part000
        (Some \<lparr>temp_c = 20, wind_kph = 0, wind_degree = 0, humidity = 0, precip_mm = Some 0\<rparr>)
        (Some (0, ''forest'')) loadedState) = 1.44"
proof -
  let ?w = "\<lparr>temp_c = 20, wind_kph = 0, wind_degree = 0, humidity = 0, precip_mm = Some 0\<rparr>"
  have a: "specSpreadRate (sampleOf ScriptJs ?w 0 ''unknown'') = 1"
    by (simp add: specSpreadRate_def sampleOf_def fuelTypeOf_def)
  have b: "specSpreadRate (sampleOf ScriptJs ?w 0 ''forest'') = 1.2"
    by (simp add: specSpreadRate_def sampleOf_def fuelTypeOf_def)
  have c: "specSpreadRate (sampleOf Part000 ?w 0 ''forest'') = 1.44"
    by (simp add: specSpreadRate_def sampleOf_def fuelTypeOf_def)
  show ?thesis
    using spread_rate_formula [of ScriptJs ?w 0 "''unknown''" loadedState]
      spread_rate_formula [of ScriptJs ?w 0 "''forest''" loadedState]
      spread_rate_formula [of Part000 ?w 0 "''forest''" loadedState]
    by (simp only: a b c)
qed

text \<open>
  Claim C4 as stated (the rate is positive for every sample with finite fields) fails:
  at -10 degrees Celsius, 50 percent humidity and forest land cover the temperature
  modifier is -0.5 and the stored rate is negative.
\<close>

theorem spread_rate_not_positive:
  "\<not> 0 < effectiveSpreadRate
     (updateEnvironmentalData ScriptJs
        (Some \<lparr>temp_c = - 10, wind_kph = 0, wind_degree = 0, humidity = 50, precip_mm = Some 0\<rparr>)
        (Some (0, ''forest'')) loadedState)"
  by (simp add: updateEnvironmentalData_def fuelTypeOf_def Let_def)

text \<open>
  Claim C4, as amended. The stored spread rate is strictly positive for every sample
  whose temperature is above 0 degrees Celsius and whose humidity is below 200 percent.
  The code applies no clamp, floor or ceiling to the rate.
\<close>

theorem spread_rate_positive:
  assumes "0 < temp_c current" and "humidity current < 200"
  shows "0 < effectiveSpreadRate (updateEnvironmentalData v (Some current) (Some (slope, landCover)) st)"
proof -
  have t: "0 < 1 + (temp_c current - 20) * 0.05" using assms(1) by (simp add: field_simps)
  have h: "0 < 1 - (humidity current / 100) * 0.5" using assms(2) by simp
  have p: "0 < 1 - min 0.5 ((case precip_mm current of None \<Rightarrow> 0 | Some p \<Rightarrow> p) * 0.2)"
    by (simp add: min_def)
  have f: "0 < (if fuelTypeOf v landCover = ''dense'' then 1.2 else (1.0::real))" by simp
  have l: "0 < (if landCover = ''forest'' then 1.2
                else if landCover = ''urban'' \<or> landCover = ''residential'' then 0.8 else (1.0::real))"
    by simp
  have "0 < 1.0 * exp (0.05 * (wind_kph current / 3.6)) * (1 + ((temp_c current - 20) * 0.05)) *
            exp (1.0 * (slope / 100)) *
            (if fuelTypeOf v landCover = ''dense'' then 1.2 else (1.0::real)) *
            (1 - ((humidity current / 100) * 0.5)) *
            (1 - min 0.5 ((case precip_mm current of None \<Rightarrow> 0 | Some p \<Rightarrow> p) * 0.2)) *
            (if landCover = ''forest'' then 1.2
             else if landCover = ''urban'' \<or> landCover = ''residential'' then 0.8 else (1.0::real))"
    using t h p f l by (intro mult_pos_pos) simp_all
  then show ?thesis
    by (simp add: updateEnvironmentalData_def Let_def)
qed

theorem spread_rate_positive_witness:
  "0 < temp_c \<lparr>temp_c = 35, wind_kph = 36, wind_degree = 90, humidity = 10, precip_mm = None\<rparr> \<and>
   humidity \<lparr>temp_c = 35, wind_kph = 36, wind_degree = 90, humidity = 10, precip_mm = None\<rparr> < 200 \<and>
   0 < effectiveSpreadRate
     (updateEnvironmentalData Part000
        (Some \<lparr>temp_c = 35, wind_kph = 36, wind_degree = 90, humidity = 10, precip_mm = None\<rparr>)
        (Some (12, ''forest'')) loadedState)"
  using spread_rate_positive [of "\<lparr>temp_c = 35, wind_kph = 36, wind_degree = 90, humidity = 10, precip_mm = None\<rparr>"
      Part000 12 "''forest''" loadedState]
  by simp

text \<open>
  Claim C6. For every time index above 0 and every positive spread rate, the radius of
  the best scenario is at most that of the neutral one, which is at most that of the
  worst one.
\<close>

theorem scenario_ordering:
  assumes "0 < timeIndex" and "0 < effectiveSpreadRate st"
  shows "scenarioRadius bestMultiplier timeIndex st \<le> scenarioRadius neutralMultiplier timeIndex st \<and>
         scenarioRadius neutralMultiplier timeIndex st \<le> scenarioRadius worstMultiplier timeIndex st"
proof -
  have "0 \<le> real timeIndex * effectiveSpreadRate st" using assms by simp
  then show ?thesis
    by (simp add: scenarioRadius_def bestMultiplier_def neutralMultiplier_def worstMultiplier_def
        mult_left_mono)
qed

theorem scenario_ordering_witness:
  "(0::nat) < 10 \<and> 0 < effectiveSpreadRate loadedState \<and>
   scenarioRadius bestMultiplier 10 loadedState = 8 \<and>
   scenarioRadius neutralMultiplier 10 loadedState = 10 \<and>
   scenarioRadius worstMultiplier 10 loadedState = 12 \<and>
   scenarioRadius bestMultiplier 10 loadedState \<le> scenarioRadius neutralMultiplier 10 loadedState \<and>
   scenarioRadius neutralMultiplier 10 loadedState \<le> scenarioRadius worstMultiplier 10 loadedState"
proof -
  have r: "0 < effectiveSpreadRate loadedState" by (simp add: loadedState_def)
  have t: "(0::nat) < 10" by simp
  from scenario_ordering [OF t r] r show ?thesis
    by (simp add: scenarioRadius_def bestMultiplier_def neutralMultiplier_def worstMultiplier_def
        loadedState_def)
qed


text \<open>
  Claim C5 as stated (no scaling after the conversion to screen units) fails in
  \<open>script.js\<close>: with the ignition point at latitude 0, longitude 0, one pixel per degree,
  rate 1 and time index 1, the neutral radius handed to the generator is five times the
  converted radius.
\<close>

theorem display_scale_counterexample:
  "scenarioRadiusPx ScriptJs (\<lambda>c. \<lparr>px = lng c, py = lat c\<rparr>) neutralMultiplier 1
     (loadedState\<lparr>fireStartLatLng := Some \<lparr>lat = 0, lng = 0\<rparr>\<rparr>) \<noteq>
   metersToPixels ScriptJs (\<lambda>c. \<lparr>px = lng c, py = lat c\<rparr>)
     (loadedState\<lparr>fireStartLatLng := Some \<lparr>lat = 0, lng = 0\<rparr>\<rparr>)
     (scenarioRadius neutralMultiplier 1 (loadedState\<lparr>fireStartLatLng := Some \<lparr>lat = 0, lng = 0\<rparr>\<rparr>))"
  by (simp add: scenarioRadiusPx_def scenarioRadius_def metersToPixels_def displayScaleFactor_def
      neutralMultiplier_def loadedState_def)

text \<open>
  Claim C5, as amended. The radius of a scenario is the time index times the spread rate
  times the multiplier 0.8, 1.0 or 1.2, in meters. The base radius handed to the boundary
  generator is this radius converted by \<open>metersToPixels\<close> and then multiplied by
  \<open>displayScaleFactor\<close>, which is 5 in \<open>script.js\<close> and 1 in the other file.
\<close>

theorem scenario_radius_scaled:
  assumes "timeIndex < 30" and "fireStartLatLng st = Some ign" and "630 \<le> depth"
  shows "\<exists>bestPoints neutralPoints worstPoints.
     getCustomFireFrontPoints depth
       (metersToPixels v proj st (real timeIndex * effectiveSpreadRate st * 0.8) * displayScaleFactor v)
       (globalWindDegree st) (globalDirectionalFactor st) None = Some bestPoints \<and>
     getCustomFireFrontPoints depth
       (metersToPixels v proj st (real timeIndex * effectiveSpreadRate st * 1.0) * displayScaleFactor v)
       (globalWindDegree st) (globalDirectionalFactor st) None = Some neutralPoints \<and>
     getCustomFireFrontPoints depth
       (metersToPixels v proj st (real timeIndex * effectiveSpreadRate st * 1.2) * displayScaleFactor v)
       (globalWindDegree st) (globalDirectionalFactor st) None = Some worstPoints \<and>
     canvas (snd (animateFireSpread v depth proj timeIndex totalRealTime st)) =
       [FireDot (proj ign),
        Scenario (map (\<lambda>pt. \<lparr>px = px (proj ign) + px pt, py = py (proj ign) + py pt\<rparr>) bestPoints) ''green'',
        Scenario (map (\<lambda>pt. \<lparr>px = px (proj ign) + px pt, py = py (proj ign) + py pt\<rparr>) neutralPoints) ''yellow'',
        Scenario (map (\<lambda>pt. \<lparr>px = px (proj ign) + px pt, py = py (proj ign) + py pt\<rparr>) worstPoints) ''orange''] \<and>
     scenarioRadius bestMultiplier timeIndex st = real timeIndex * effectiveSpreadRate st * 0.8 \<and>
     scenarioRadius neutralMultiplier timeIndex st = real timeIndex * effectiveSpreadRate st * 1.0 \<and>
     scenarioRadius worstMultiplier timeIndex st = real timeIndex * effectiveSpreadRate st * 1.2 \<and>
     displayScaleFactor ScriptJs = 5 \<and> displayScaleFactor Part000 = 1"
proof -
  have r: "scenarioRadiusPx v proj bestMultiplier timeIndex st =
             metersToPixels v proj st (real timeIndex * effectiveSpreadRate st * 0.8) * displayScaleFactor v"
          "scenarioRadiusPx v proj neutralMultiplier timeIndex st =
             metersToPixels v proj st (real timeIndex * effectiveSpreadRate st * 1.0) * displayScaleFactor v"
          "scenarioRadiusPx v proj worstMultiplier timeIndex st =
             metersToPixels v proj st (real timeIndex * effectiveSpreadRate st * 1.2) * displayScaleFactor v"
    by (simp_all add: scenarioRadiusPx_def scenarioRadius_def bestMultiplier_def
        neutralMultiplier_def worstMultiplier_def)
  have c: "canvas (snd (animateFireSpread v depth proj timeIndex totalRealTime st)) =
       [FireDot (proj ign),
        Scenario (map (\<lambda>pt. \<lparr>px = px (proj ign) + px pt, py = py (proj ign) + py pt\<rparr>)
          (specBoundary (scenarioRadiusPx v proj bestMultiplier timeIndex st)
             (globalWindDegree st) (globalDirectionalFactor st) None)) ''green'',
        Scenario (map (\<lambda>pt. \<lparr>px = px (proj ign) + px pt, py = py (proj ign) + py pt\<rparr>)
          (specBoundary (scenarioRadiusPx v proj neutralMultiplier timeIndex st)
             (globalWindDegree st) (globalDirectionalFactor st) None)) ''yellow'',
        Scenario (map (\<lambda>pt. \<lparr>px = px (proj ign) + px pt, py = py (proj ign) + py pt\<rparr>)
          (specBoundary (scenarioRadiusPx v proj worstMultiplier timeIndex st)
             (globalWindDegree st) (globalDirectionalFactor st) None)) ''orange'']"
    by (simp add: animate_tick [OF assms])
  have m: "scenarioRadius bestMultiplier timeIndex st = real timeIndex * effectiveSpreadRate st * 0.8"
      "scenarioRadius neutralMultiplier timeIndex st = real timeIndex * effectiveSpreadRate st * 1.0"
      "scenarioRadius worstMultiplier timeIndex st = real timeIndex * effectiveSpreadRate st * 1.2"
    by (simp_all add: scenarioRadius_def bestMultiplier_def neutralMultiplier_def worstMultiplier_def)
  have d: "displayScaleFactor ScriptJs = 5" "displayScaleFactor Part000 = 1"
    by (simp_all add: displayScaleFactor_def)
  show ?thesis
    apply (rule exI [of _ "specBoundary (scenarioRadiusPx v proj bestMultiplier timeIndex st)
             (globalWindDegree st) (globalDirectionalFactor st) None"])
    apply (rule exI [of _ "specBoundary (scenarioRadiusPx v proj neutralMultiplier timeIndex st)
             (globalWindDegree st) (globalDirectionalFactor st) None"])
    apply (rule exI [of _ "specBoundary (scenarioRadiusPx v proj worstMultiplier timeIndex st)
             (globalWindDegree st) (globalDirectionalFactor st) None"])
    apply (simp only: c m d getCustom_returns [OF assms(3)] r [symmetric])
    done
qed

theorem scenario_radius_scaled_witness:
  "\<exists>bestPoints neutralPoints worstPoints.
     getCustomFireFrontPoints 630 (360 / 40075000 * 8 * 5) 0 1 None = Some bestPoints \<and>
     getCustomFireFrontPoints 630 (360 / 40075000 * 10 * 5) 0 1 None = Some neutralPoints \<and>
     getCustomFireFrontPoints 630 (360 / 40075000 * 12 * 5) 0 1 None = Some worstPoints \<and>
     canvas (snd (animateFireSpread ScriptJs 630 (\<lambda>c. \<lparr>px = lng c, py = lat c\<rparr>) 10 10000
                    (loadedState\<lparr>fireStartLatLng := Some \<lparr>lat = 0, lng = 0\<rparr>\<rparr>))) =
       [FireDot \<lparr>px = 0, py = 0\<rparr>,
        Scenario (map (\<lambda>pt. \<lparr>px = 0 + px pt, py = 0 + py pt\<rparr>) bestPoints) ''green'',
        Scenario (map (\<lambda>pt. \<lparr>px = 0 + px pt, py = 0 + py pt\<rparr>) neutralPoints) ''yellow'',
        Scenario (map (\<lambda>pt. \<lparr>px = 0 + px pt, py = 0 + py pt\<rparr>) worstPoints) ''orange'']"
proof -
  let ?st = "loadedState\<lparr>fireStartLatLng := Some \<lparr>lat = 0, lng = 0\<rparr>\<rparr>"
  let ?proj = "\<lambda>c. \<lparr>px = lng c, py = lat c\<rparr>"
  have t: "(10::nat) < 30" and i: "fireStartLatLng ?st = Some \<lparr>lat = 0, lng = 0\<rparr>"
    and d: "(630::nat) \<le> 630"
    by simp_all
  have m: "metersToPixels ScriptJs ?proj ?st x = \<bar>x\<bar> * (360 / 40075000)" for x
    by (simp add: metersToPixels_def loadedState_def abs_mult)
  have g: "globalWindDegree ?st = 0" "globalDirectionalFactor ?st = 1" "effectiveSpreadRate ?st = 1"
    by (simp_all add: loadedState_def)
  show ?thesis
    using scenario_radius_scaled [OF t i d, of ScriptJs ?proj 10000]
    by (simp add: m g displayScaleFactor_def) blast
qed


section \<open>The animator and the reset\<close>

text \<open>
  Claim C8. Without an ignition point \<open>simulateFireSpread\<close> only shows its message and
  changes nothing else. With an ignition point it sets \<open>simulationRunning\<close> and draws time
  index 0; each time the timer it scheduled comes due the next time index is drawn, in
  the order 0, 1, ..., 29, with exactly one tick pending after each; when the thirtieth
  timer comes due \<open>simulationRunning\<close> is cleared and no tick is scheduled. The timers that
  were pending at the start are left alone, and the call stack has room for the
  boundary generator.
\<close>

theorem animator_lifecycle:
  "(fireStartLatLng st = None \<longrightarrow>
      simulateFireSpread v depth proj simRunTimeSecInput st =
        (None, st\<lparr>alerts := alerts st @
           [''Please click on the map to set the starting point of the fire first.'']\<rparr>)) \<and>
   (fireStartLatLng st = Some ign \<and> 630 \<le> depth \<longrightarrow>
      (\<forall>n<30.
         simulationRunning
           (((fireTimer v depth proj (length (timers st))) ^^ n)
              (snd (simulateFireSpread v depth proj simRunTimeSecInput st))) \<and>
         timeSliderValue
           (((fireTimer v depth proj (length (timers st))) ^^ n)
              (snd (simulateFireSpread v depth proj simRunTimeSecInput st))) = real n \<and>
         timers
           (((fireTimer v depth proj (length (timers st))) ^^ n)
              (snd (simulateFireSpread v depth proj simRunTimeSecInput st))) =
           timers st @
             [(Animate (Suc n)
                 ((case simRunTimeSecInput of None \<Rightarrow> 10 | Some s \<Rightarrow> if s = 0 then 10 else s) * 1000),
               ((case simRunTimeSecInput of None \<Rightarrow> 10 | Some s \<Rightarrow> if s = 0 then 10 else s) * 1000) / 30)]) \<and>
      \<not> simulationRunning
          (((fireTimer v depth proj (length (timers st))) ^^ 30)
             (snd (simulateFireSpread v depth proj simRunTimeSecInput st))) \<and>
      timers
          (((fireTimer v depth proj (length (timers st))) ^^ 30)
             (snd (simulateFireSpread v depth proj simRunTimeSecInput st))) = timers st)"
proof (intro conjI impI allI)
  assume "fireStartLatLng st = None"
  then show "simulateFireSpread v depth proj simRunTimeSecInput st =
        (None, st\<lparr>alerts := alerts st @
           [''Please click on the map to set the starting point of the fire first.'']\<rparr>)"
    by (simp add: simulateFireSpread_def)
next
  fix n :: nat
  assume a: "fireStartLatLng st = Some ign \<and> 630 \<le> depth" and n: "n < 30"
  from a have ign: "fireStartLatLng st = Some ign" and depth: "630 \<le> depth" by simp_all
  note r = run_ticks [OF ign depth n, of v proj simRunTimeSecInput]
  from r show "simulationRunning
           (((fireTimer v depth proj (length (timers st))) ^^ n)
              (snd (simulateFireSpread v depth proj simRunTimeSecInput st)))" by simp
  from r show "timeSliderValue
           (((fireTimer v depth proj (length (timers st))) ^^ n)
              (snd (simulateFireSpread v depth proj simRunTimeSecInput st))) = real n" by simp
  from r show "timers
           (((fireTimer v depth proj (length (timers st))) ^^ n)
              (snd (simulateFireSpread v depth proj simRunTimeSecInput st))) =
           timers st @
             [(Animate (Suc n)
                 ((case simRunTimeSecInput of None \<Rightarrow> 10 | Some s \<Rightarrow> if s = 0 then 10 else s) * 1000),
               ((case simRunTimeSecInput of None \<Rightarrow> 10 | Some s \<Rightarrow> if s = 0 then 10 else s) * 1000) / 30)]"
    by simp
next
  assume a: "fireStartLatLng st = Some ign \<and> 630 \<le> depth"
  from a have ign: "fireStartLatLng st = Some ign" and depth: "630 \<le> depth" by simp_all
  note r = run_complete [OF ign depth, of v proj simRunTimeSecInput]
  from r show "\<not> simulationRunning
          (((fireTimer v depth proj (length (timers st))) ^^ 30)
             (snd (simulateFireSpread v depth proj simRunTimeSecInput st)))" by simp
  from r show "timers
          (((fireTimer v depth proj (length (timers st))) ^^ 30)
             (snd (simulateFireSpread v depth proj simRunTimeSecInput st))) = timers st" by simp
qed

theorem animator_lifecycle_witness:
  "simulateFireSpread ScriptJs 630 (\<lambda>c. \<lparr>px = lng c, py = lat c\<rparr>) None loadedState =
     (None, loadedState\<lparr>alerts :=
        [''Please click on the map to set the starting point of the fire first.'']\<rparr>) \<and>
   simulationRunning
     (((fireTimer ScriptJs 630 (\<lambda>c. \<lparr>px = lng c, py = lat c\<rparr>) 0) ^^ 29)
        (snd (simulateFireSpread ScriptJs 630 (\<lambda>c. \<lparr>px = lng c, py = lat c\<rparr>) None
           (loadedState\<lparr>fireStartLatLng := Some \<lparr>lat = 0, lng = 0\<rparr>\<rparr>)))) \<and>
   timeSliderValue
     (((fireTimer ScriptJs 630 (\<lambda>c. \<lparr>px = lng c, py = lat c\<rparr>) 0) ^^ 29)
        (snd (simulateFireSpread ScriptJs 630 (\<lambda>c. \<lparr>px = lng c, py = lat c\<rparr>) None
           (loadedState\<lparr>fireStartLatLng := Some \<lparr>lat = 0, lng = 0\<rparr>\<rparr>)))) = 29 \<and>
   \<not> simulationRunning
     (((fireTimer ScriptJs 630 (\<lambda>c. \<lparr>px = lng c, py = lat c\<rparr>) 0) ^^ 30)
        (snd (simulateFireSpread ScriptJs 630 (\<lambda>c. \<lparr>px = lng c, py = lat c\<rparr>) None
           (loadedState\<lparr>fireStartLatLng := Some \<lparr>lat = 0, lng = 0\<rparr>\<rparr>)))) \<and>
   timers
     (((fireTimer ScriptJs 630 (\<lambda>c. \<lparr>px = lng c, py = lat c\<rparr>) 0) ^^ 30)
        (snd (simulateFireSpread ScriptJs 630 (\<lambda>c. \<lparr>px = lng c, py = lat c\<rparr>) None
           (loadedState\<lparr>fireStartLatLng := Some \<lparr>lat = 0, lng = 0\<rparr>\<rparr>)))) = []"
proof -
  let ?P = "\<lambda>c. \<lparr>px = lng c, py = lat c\<rparr>"
  let ?st = "loadedState\<lparr>fireStartLatLng := Some \<lparr>lat = 0, lng = 0\<rparr>\<rparr>"
  have l: "fireStartLatLng loadedState = None" "alerts loadedState = []"
    by (simp_all add: loadedState_def)
  have i: "fireStartLatLng ?st = Some \<lparr>lat = 0, lng = 0\<rparr>" "timers ?st = []"
    by (simp_all add: loadedState_def)
  have n: "(29::nat) < 30" by simp
  from animator_lifecycle [where st = loadedState and v = ScriptJs and depth = 630 and proj = ?P
      and simRunTimeSecInput = None and ign = "\<lparr>lat = 0, lng = 0\<rparr>"] l
  have a: "simulateFireSpread ScriptJs 630 ?P None loadedState =
     (None, loadedState\<lparr>alerts :=
        [''Please click on the map to set the starting point of the fire first.'']\<rparr>)"
    by simp
  from animator_lifecycle [where st = ?st and v = ScriptJs and depth = 630 and proj = ?P
      and simRunTimeSecInput = None and ign = "\<lparr>lat = 0, lng = 0\<rparr>"] i
  have b: "(\<forall>n<30.
         simulationRunning (((fireTimer ScriptJs 630 ?P 0) ^^ n) (snd (simulateFireSpread ScriptJs 630 ?P None ?st))) \<and>
         timeSliderValue (((fireTimer ScriptJs 630 ?P 0) ^^ n) (snd (simulateFireSpread ScriptJs 630 ?P None ?st))) = real n) \<and>
      \<not> simulationRunning (((fireTimer ScriptJs 630 ?P 0) ^^ 30) (snd (simulateFireSpread ScriptJs 630 ?P None ?st))) \<and>
      timers (((fireTimer ScriptJs 630 ?P 0) ^^ 30) (snd (simulateFireSpread ScriptJs 630 ?P None ?st))) = []"
    by simp
  from b n have c: "simulationRunning (((fireTimer ScriptJs 630 ?P 0) ^^ 29) (snd (simulateFireSpread ScriptJs 630 ?P None ?st))) \<and>
         timeSliderValue (((fireTimer ScriptJs 630 ?P 0) ^^ 29) (snd (simulateFireSpread ScriptJs 630 ?P None ?st))) = real 29"
    by blast
  from a b c show ?thesis by simp
qed

text \<open>
  \<open>clearFire\<close> writes constants only, so a second call changes nothing. It touches
  neither \<open>simulationRunning\<close> nor the pending timers.
\<close>

lemma clearFire_idempotent: "clearFire v (clearFire v st) = clearFire v st"
  by (simp add: clearFire_def)

lemma clearFire_keeps_running:
  "simulationRunning (clearFire v st) = simulationRunning st" "timers (clearFire v st) = timers st"
  "fireStartLatLng (clearFire v st) = None"
  by (simp_all add: clearFire_def)

text \<open>
  A poll that comes due while \<open>simulationRunning\<close> is set and no ignition point exists sends
  no request and schedules the next poll.
\<close>

lemma poll_after_clear:
  assumes "simulationRunning s" and "fireStartLatLng s = None" and "timers s = [(UpdateEnv k, 1000)]"
  shows "simulationRunning (fireTimer v depth proj 0 s) \<and> fireStartLatLng (fireTimer v depth proj 0 s) = None \<and>
         timers (fireTimer v depth proj 0 s) = [(UpdateEnv (Suc k), 1000)]"
  using assms by (simp add: fireTimer_def recursiveUpdateEnvData_def)

lemma polls_after_clear:
  assumes "simulationRunning s" and "fireStartLatLng s = None" and "timers s = [(UpdateEnv k, 1000)]"
  shows "simulationRunning (((fireTimer v depth proj 0) ^^ n) s) \<and>
         fireStartLatLng (((fireTimer v depth proj 0) ^^ n) s) = None \<and>
         timers (((fireTimer v depth proj 0) ^^ n) s) = [(UpdateEnv (n + k), 1000)]"
proof (induction n)
  case 0
  show ?case using assms by simp
next
  case (Suc n)
  then show ?case using poll_after_clear [where s = "((fireTimer v depth proj 0) ^^ n) s" and k = "n + k"
        and v = v and depth = depth and proj = proj]
    by simp
qed

text \<open>
  Claim C9 (reset returns to idle and stops every scheduled tick and poll) against the code.
  After a click on the start button and then on the clear button, \<open>simulationRunning\<close> is
  still set and both timers are still pending. The pending tick runs, clears the canvas
  and throws \<open>TypeError\<close> on the missing ignition point; \<open>animateFireSpread\<close> reads no
  liveness flag. The pending poll finds \<open>simulationRunning\<close> set and schedules itself
  again, and so does every later poll: the page never returns to idle.
\<close>

theorem clearFire_while_running:
  "simulationRunning
     (clearFire ScriptJs
        (setFireButtonClick ScriptJs 630 (\<lambda>c. \<lparr>px = lng c, py = lat c\<rparr>) None
           (loadedState\<lparr>fireStartLatLng := Some \<lparr>lat = 0, lng = 0\<rparr>\<rparr>))) \<and>
   timers
     (clearFire ScriptJs
        (setFireButtonClick ScriptJs 630 (\<lambda>c. \<lparr>px = lng c, py = lat c\<rparr>) None
           (loadedState\<lparr>fireStartLatLng := Some \<lparr>lat = 0, lng = 0\<rparr>\<rparr>))) =
     [(Animate 1 10000, 10000 / 30), (UpdateEnv 2, 1000)] \<and>
   animateFireSpread ScriptJs 630 (\<lambda>c. \<lparr>px = lng c, py = lat c\<rparr>) 1 10000
     ((clearFire ScriptJs
        (setFireButtonClick ScriptJs 630 (\<lambda>c. \<lparr>px = lng c, py = lat c\<rparr>) None
           (loadedState\<lparr>fireStartLatLng := Some \<lparr>lat = 0, lng = 0\<rparr>\<rparr>)))\<lparr>timers := [(UpdateEnv 2, 1000)]\<rparr>) =
     (Some TypeError,
      (clearFire ScriptJs
        (setFireButtonClick ScriptJs 630 (\<lambda>c. \<lparr>px = lng c, py = lat c\<rparr>) None
           (loadedState\<lparr>fireStartLatLng := Some \<lparr>lat = 0, lng = 0\<rparr>\<rparr>)))\<lparr>timers := [(UpdateEnv 2, 1000)]\<rparr>) \<and>
   (\<forall>n. simulationRunning
          (((fireTimer ScriptJs 630 (\<lambda>c. \<lparr>px = lng c, py = lat c\<rparr>) 0) ^^ Suc n)
             (clearFire ScriptJs
                (setFireButtonClick ScriptJs 630 (\<lambda>c. \<lparr>px = lng c, py = lat c\<rparr>) None
                   (loadedState\<lparr>fireStartLatLng := Some \<lparr>lat = 0, lng = 0\<rparr>\<rparr>)))) \<and>
        timers
          (((fireTimer ScriptJs 630 (\<lambda>c. \<lparr>px = lng c, py = lat c\<rparr>) 0) ^^ Suc n)
             (clearFire ScriptJs
                (setFireButtonClick ScriptJs 630 (\<lambda>c. \<lparr>px = lng c, py = lat c\<rparr>) None
                   (loadedState\<lparr>fireStartLatLng := Some \<lparr>lat = 0, lng = 0\<rparr>\<rparr>)))) =
          [(UpdateEnv (n + 2), 1000)])"
proof -
  let ?P = "\<lambda>c. \<lparr>px = lng c, py = lat c\<rparr>"
  let ?o = "\<lparr>lat = 0, lng = 0\<rparr>"
  let ?s0 = "loadedState\<lparr>fireStartLatLng := Some ?o\<rparr>"
  let ?s1 = "setFireButtonClick ScriptJs 630 ?P None ?s0"
  let ?s2 = "clearFire ScriptJs ?s1"
  have i: "fireStartLatLng ?s0 = Some ?o" and d: "(630::nat) \<le> 630" and t0: "timers ?s0 = []"
    by (simp_all add: loadedState_def)
  note st = simulate_start [OF i d, of ScriptJs ?P None]
  obtain x where x: "simulateFireSpread ScriptJs 630 ?P None ?s0 = (None, x)"
    using st(5) by (cases "simulateFireSpread ScriptJs 630 ?P None ?s0") auto
  from st x t0 have xs: "simulationRunning x" "fireStartLatLng x = Some ?o"
      "timers x = [(Animate (Suc 0) 10000, 10000 / 30)]"
    by simp_all
  have s1: "?s1 = recursiveUpdateEnvData 1 x"
    by (simp add: setFireButtonClick_def i x)
  have r1: "simulationRunning ?s1" "timers ?s1 = [(Animate 1 10000, 10000 / 30), (UpdateEnv 2, 1000)]"
    unfolding s1 using xs by (simp_all add: recursiveUpdateEnvData_def)
  have r2: "simulationRunning ?s2" "timers ?s2 = [(Animate 1 10000, 10000 / 30), (UpdateEnv 2, 1000)]"
      "fireStartLatLng ?s2 = None" "canvas ?s2 = []"
    using r1 by (simp_all add: clearFire_def)
  have tick: "animateFireSpread ScriptJs 630 ?P 1 10000 (?s2\<lparr>timers := [(UpdateEnv 2, 1000)]\<rparr>) =
      (Some TypeError, ?s2\<lparr>timers := [(UpdateEnv 2, 1000)]\<rparr>)"
    using r2(3,4) by (simp add: animateFireSpread_def simulationSteps_30 drawMap_def)
  have f1: "fireTimer ScriptJs 630 ?P 0 ?s2 = ?s2\<lparr>timers := [(UpdateEnv 2, 1000)]\<rparr>"
    by (simp add: fireTimer_def r2(2) tick del: One_nat_def)
  have after: "simulationRunning (((fireTimer ScriptJs 630 ?P 0) ^^ Suc n) ?s2) \<and>
        timers (((fireTimer ScriptJs 630 ?P 0) ^^ Suc n) ?s2) = [(UpdateEnv (n + 2), 1000)]" for n
  proof -
    have "((fireTimer ScriptJs 630 ?P 0) ^^ Suc n) ?s2 =
          ((fireTimer ScriptJs 630 ?P 0) ^^ n) (?s2\<lparr>timers := [(UpdateEnv 2, 1000)]\<rparr>)"
      by (simp only: funpow_Suc_right o_apply f1)
    moreover have "simulationRunning (?s2\<lparr>timers := [(UpdateEnv 2, 1000)]\<rparr>)"
        "fireStartLatLng (?s2\<lparr>timers := [(UpdateEnv 2, 1000)]\<rparr>) = None"
        "timers (?s2\<lparr>timers := [(UpdateEnv 2, 1000)]\<rparr>) = [(UpdateEnv 2, 1000)]"
      using r2 by simp_all
    ultimately show ?thesis
      using polls_after_clear [where s = "?s2\<lparr>timers := [(UpdateEnv 2, 1000)]\<rparr>" and k = 2
          and v = ScriptJs and depth = 630 and proj = ?P and n = n]
      by simp
  qed
  show ?thesis using r2(1,2) tick after by blast
qed

end
